theory Spec2Isabelle
  imports Complex_Main
begin

section \<open>Python exceptions and results\<close>

text \<open>
  The exception classes that the two source files can raise or let through.
  \<open>NotImplementedError\<close> is a subclass of \<open>RuntimeError\<close> in Python, so an
  \<open>except RuntimeError\<close> clause catches both; no other class listed here derives from
  \<open>RuntimeError\<close>.
\<close>

datatype error =
    AssertionError
  | RuntimeError
  | NotImplementedError
  | AttributeError
  | IndexError
  | TypeError
  | KeyError
  | OSError

definition and_then :: "error + 'a \<Rightarrow> ('a \<Rightarrow> error + 'b) \<Rightarrow> error + 'b" where
  "and_then r f = (case r of Inl e \<Rightarrow> Inl e | Inr v \<Rightarrow> f v)"

section \<open>Tensors\<close>

text \<open>
  A tensor is its shape together with its elements, read by a multi-index. Elements are
  exact reals: rounding of the 32-bit floats of the source is not part of the model.
  Every shape check that the tensor library makes is a branch that returns an error.
\<close>

record tensor =
  shape :: "nat list"
  elem :: "nat list \<Rightarrow> real"

definition numel :: "nat list \<Rightarrow> nat" where
  "numel s = prod_list s"

fun indices :: "nat list \<Rightarrow> nat list list" where
  "indices [] = [[]]"
| "indices (n # ns) = concat (map (\<lambda>i. map ((#) i) (indices ns)) [0..<n])"

definition tensor_map :: "(real \<Rightarrow> real) \<Rightarrow> tensor \<Rightarrow> tensor" where
  "tensor_map f t = \<lparr>shape = shape t, elem = (\<lambda>idx. f (elem t idx))\<rparr>"

text \<open>Broadcasting of two shapes, aligned at the last dimension (computed on the reversed shapes).\<close>

fun broadcast_rev :: "nat list \<Rightarrow> nat list \<Rightarrow> nat list option" where
  "broadcast_rev [] ys = Some ys"
| "broadcast_rev (x # xs) [] = Some (x # xs)"
| "broadcast_rev (x # xs) (y # ys) =
     (if x = y then map_option ((#) x) (broadcast_rev xs ys)
      else if y = 1 then map_option ((#) x) (broadcast_rev xs ys)
      else if x = 1 then map_option ((#) y) (broadcast_rev xs ys)
      else None)"

definition broadcast_shapes :: "nat list \<Rightarrow> nat list \<Rightarrow> nat list option" where
  "broadcast_shapes a b = map_option rev (broadcast_rev (rev a) (rev b))"

text \<open>The index into an operand of shape \<open>s\<close> that a result index \<open>idx\<close> reads.\<close>

definition bidx :: "nat list \<Rightarrow> nat list \<Rightarrow> nat list" where
  "bidx s idx = map2 (\<lambda>d i. if d = 1 then 0 else i) s (drop (length idx - length s) idx)"

definition tensor_binop :: "(real \<Rightarrow> real \<Rightarrow> real) \<Rightarrow> tensor \<Rightarrow> tensor \<Rightarrow> error + tensor" where
  "tensor_binop f a b =
     (case broadcast_shapes (shape a) (shape b) of
        None \<Rightarrow> Inl RuntimeError
      | Some s \<Rightarrow> Inr \<lparr>shape = s,
                       elem = (\<lambda>idx. f (elem a (bidx (shape a) idx)) (elem b (bidx (shape b) idx)))\<rparr>)"

definition tensor_add :: "tensor \<Rightarrow> tensor \<Rightarrow> error + tensor" where
  "tensor_add = tensor_binop (+)"

definition tensor_sub :: "tensor \<Rightarrow> tensor \<Rightarrow> error + tensor" where
  "tensor_sub = tensor_binop (-)"

definition tensor_mul :: "tensor \<Rightarrow> tensor \<Rightarrow> error + tensor" where
  "tensor_mul = tensor_binop (*)"

text \<open>\<open>t.unsqueeze(-1)\<close> and \<open>t.unsqueeze(0)\<close>.\<close>

definition unsqueeze_last :: "tensor \<Rightarrow> tensor" where
  "unsqueeze_last t = \<lparr>shape = shape t @ [1], elem = (\<lambda>idx. elem t (butlast idx))\<rparr>"

definition unsqueeze_first :: "tensor \<Rightarrow> tensor" where
  "unsqueeze_first t = \<lparr>shape = 1 # shape t, elem = (\<lambda>idx. elem t (tl idx))\<rparr>"

text \<open>\<open>t.squeeze()\<close> drops every dimension of size 1.\<close>

fun expand_idx :: "nat list \<Rightarrow> nat list \<Rightarrow> nat list" where
  "expand_idx [] idx = []"
| "expand_idx (d # ds) idx =
     (if d = 1 then 0 # expand_idx ds idx
      else (case idx of [] \<Rightarrow> 0 # expand_idx ds [] | i # is \<Rightarrow> i # expand_idx ds is))"

definition squeeze :: "tensor \<Rightarrow> tensor" where
  "squeeze t = \<lparr>shape = filter (\<lambda>d. d \<noteq> 1) (shape t),
                elem = (\<lambda>idx. elem t (expand_idx (shape t) idx))\<rparr>"

text \<open>\<open>t.view(*s)\<close>: the same elements in row-major order under a new shape.\<close>

fun ravel :: "nat list \<Rightarrow> nat list \<Rightarrow> nat" where
  "ravel [] idx = 0"
| "ravel (d # ds) [] = 0"
| "ravel (d # ds) (i # is) = i * numel ds + ravel ds is"

fun unravel :: "nat list \<Rightarrow> nat \<Rightarrow> nat list" where
  "unravel [] n = []"
| "unravel (d # ds) n = (n div numel ds) mod d # unravel ds n"

definition view :: "tensor \<Rightarrow> nat list \<Rightarrow> error + tensor" where
  "view t s =
     (if numel (shape t) = numel s
      then Inr \<lparr>shape = s, elem = (\<lambda>idx. elem t (unravel (shape t) (ravel s idx)))\<rparr>
      else Inl RuntimeError)"

text \<open>\<open>torch.sum(t)\<close>, \<open>torch.sum(t, dim=d, keepdim=k)\<close> and \<open>t.mean(dim=(2, 3))\<close>.\<close>

definition sum_all :: "tensor \<Rightarrow> tensor" where
  "sum_all t = \<lparr>shape = [], elem = (\<lambda>idx. sum_list (map (elem t) (indices (shape t))))\<rparr>"

definition sum_dim :: "tensor \<Rightarrow> nat \<Rightarrow> bool \<Rightarrow> error + tensor" where
  "sum_dim t d keepdim =
     (if d < length (shape t)
      then Inr \<lparr>shape = (if keepdim then (shape t)[d := 1]
                         else take d (shape t) @ drop (Suc d) (shape t)),
                elem = (\<lambda>idx. sum_list (map (\<lambda>k. elem t (if keepdim then idx[d := k]
                                                          else take d idx @ [k] @ drop d idx))
                                            [0..<shape t ! d]))\<rparr>
      else Inl IndexError)"

definition mean_2_3 :: "tensor \<Rightarrow> error + tensor" where
  "mean_2_3 t =
     (if 4 \<le> length (shape t)
      then Inr \<lparr>shape = take 2 (shape t) @ drop 4 (shape t),
                elem = (\<lambda>idx. sum_list (map (\<lambda>i. sum_list (map (\<lambda>j.
                                 elem t (take 2 idx @ [i, j] @ drop 2 idx)) [0..<shape t ! 3]))
                               [0..<shape t ! 2])
                             / real (shape t ! 2 * shape t ! 3))\<rparr>
      else Inl IndexError)"

text \<open>
  \<open>torch.cat(ts, dim=d)\<close>: tensors of shape \<open>(0,)\<close> are skipped; the others must agree in
  every dimension but \<open>d\<close>.
\<close>

definition same_except :: "nat \<Rightarrow> nat list \<Rightarrow> nat list \<Rightarrow> bool" where
  "same_except d s1 s2 = (length s1 = length s2 \<and> s1[d := 0] = s2[d := 0])"

fun cat_elem :: "tensor list \<Rightarrow> nat \<Rightarrow> nat list \<Rightarrow> real" where
  "cat_elem [] d idx = 0"
| "cat_elem (t # ts) d idx =
     (if idx ! d < shape t ! d then elem t idx
      else cat_elem ts d (idx[d := idx ! d - shape t ! d]))"

definition torch_cat :: "tensor list \<Rightarrow> nat \<Rightarrow> error + tensor" where
  "torch_cat ts d =
     (case filter (\<lambda>t. shape t \<noteq> [0]) ts of
        [] \<Rightarrow> Inr \<lparr>shape = [0], elem = (\<lambda>idx. 0)\<rparr>
      | t # rest \<Rightarrow>
          if d < length (shape t)
          then (if list_all (\<lambda>u. same_except d (shape t) (shape u)) rest
                then Inr \<lparr>shape = (shape t)[d := sum_list (map (\<lambda>u. shape u ! d) (t # rest))],
                          elem = cat_elem (t # rest) d\<rparr>
                else Inl RuntimeError)
          else Inl IndexError)"

section \<open>Layers\<close>

text \<open>
  \<open>nn.Conv2d\<close> with stride 1: the input is a batch \<open>(B, C, H, W)\<close>, the weight is
  \<open>(O, C, kh, kw)\<close>, the bias \<open>(O,)\<close>; the padded input must be at least as large as the
  kernel.
\<close>

record conv2d =
  weight :: tensor
  bias :: tensor
  padding :: nat

fun conv_shape :: "nat list \<Rightarrow> nat list \<Rightarrow> nat list \<Rightarrow> nat \<Rightarrow> nat list option" where
  "conv_shape [b, c, h, w] [co, ci, kh, kw] [bo] p =
     (if c = ci \<and> bo = co \<and> 0 < kh \<and> 0 < kw \<and> kh \<le> h + 2 * p \<and> kw \<le> w + 2 * p
      then Some [b, co, h + 2 * p - kh + 1, w + 2 * p - kw + 1]
      else None)"
| "conv_shape xs ws bs p = None"

definition padded :: "tensor \<Rightarrow> nat \<Rightarrow> nat \<Rightarrow> nat \<Rightarrow> nat \<Rightarrow> nat \<Rightarrow> real" where
  "padded x p b c u v =
     (if p \<le> u \<and> u < shape x ! 2 + p \<and> p \<le> v \<and> v < shape x ! 3 + p
      then elem x [b, c, u - p, v - p] else 0)"

definition conv_elem :: "conv2d \<Rightarrow> tensor \<Rightarrow> nat list \<Rightarrow> real" where
  "conv_elem l x idx =
     (let b = idx ! 0; out = idx ! 1; i = idx ! 2; j = idx ! 3; ws = shape (weight l)
      in elem (bias l) [out] +
         sum_list (map (\<lambda>c. sum_list (map (\<lambda>di. sum_list (map (\<lambda>dj.
             elem (weight l) [out, c, di, dj] * padded x (padding l) b c (i + di) (j + dj))
           [0..<ws ! 3])) [0..<ws ! 2])) [0..<ws ! 1]))"

definition apply_conv2d :: "conv2d \<Rightarrow> tensor \<Rightarrow> error + tensor" where
  "apply_conv2d l x =
     (case conv_shape (shape x) (shape (weight l)) (shape (bias l)) (padding l) of
        None \<Rightarrow> Inl RuntimeError
      | Some s \<Rightarrow> Inr \<lparr>shape = s, elem = conv_elem l x\<rparr>)"

text \<open>
  \<open>nn.MaxPool2d(k, stride=s)\<close> without padding: an output dimension of size 0 is an
  error.
\<close>

record maxpool2d =
  kernel_size :: nat
  stride :: nat

fun pool_shape :: "nat list \<Rightarrow> nat \<Rightarrow> nat \<Rightarrow> nat list option" where
  "pool_shape [b, c, h, w] k s =
     (if 0 < k \<and> 0 < s \<and> k \<le> h \<and> k \<le> w
      then Some [b, c, (h - k) div s + 1, (w - k) div s + 1]
      else None)"
| "pool_shape xs k s = None"

definition pool_elem :: "maxpool2d \<Rightarrow> tensor \<Rightarrow> nat list \<Rightarrow> real" where
  "pool_elem l x idx =
     (let b = idx ! 0; c = idx ! 1; i = idx ! 2; j = idx ! 3;
          window = concat (map (\<lambda>di. map (\<lambda>dj.
              elem x [b, c, i * stride l + di, j * stride l + dj]) [0..<kernel_size l])
            [0..<kernel_size l])
      in fold max (tl window) (hd window))"

definition apply_maxpool2d :: "maxpool2d \<Rightarrow> tensor \<Rightarrow> error + tensor" where
  "apply_maxpool2d l x =
     (case pool_shape (shape x) (kernel_size l) (stride l) of
        None \<Rightarrow> Inl RuntimeError
      | Some s \<Rightarrow> Inr \<lparr>shape = s, elem = pool_elem l x\<rparr>)"

definition relu :: "tensor \<Rightarrow> tensor" where
  "relu = tensor_map (\<lambda>v. max 0 v)"

definition sigmoid :: "tensor \<Rightarrow> tensor" where
  "sigmoid = tensor_map (\<lambda>v. 1 / (1 + exp (- v)))"

definition torch_log :: "tensor \<Rightarrow> tensor" where
  "torch_log = tensor_map ln"

section \<open>The CDWS network\<close>

text \<open>
  A Python attribute that the source initialises with a plain number or a tensor. Only a
  tensor has the method \<open>to\<close>.
\<close>

datatype pyval = PyInt int | PyTensor tensor

definition py_to :: "pyval \<Rightarrow> error + tensor" where
  "py_to v = (case v of PyTensor t \<Rightarrow> Inr t | PyInt n \<Rightarrow> Inl AttributeError)"

text \<open>Generalized mean parameter (class attribute, never assigned).\<close>

definition gmp :: int where
  "gmp = 4"

text \<open>
  The instance with the attributes that \<open>forward\<close> and \<open>compute_loss\<close> read or assign.
  \<open>fusion_weights\<close>, \<open>side_ac_weights\<close> and \<open>fuse_ac_weight\<close> start as the class
  attributes; an assignment through \<open>self\<close> replaces them on the instance.
\<close>

record cdws =
  conv1_1 :: conv2d
  conv1_2 :: conv2d
  pool1 :: maxpool2d
  conv2_1 :: conv2d
  conv2_2 :: conv2d
  pool2 :: maxpool2d
  conv3_1 :: conv2d
  conv3_2 :: conv2d
  conv3_3 :: conv2d
  pool3 :: maxpool2d
  side_conv1 :: conv2d
  side_conv2 :: conv2d
  side_conv3 :: conv2d
  fusion_weights :: tensor
  side_ac_weights :: tensor
  fuse_ac_weight :: pyval
  side_outputs :: "tensor option"
  fused_output :: "tensor option"

text \<open>A one-dimensional tensor literal, \<open>torch.tensor([...])\<close>.\<close>

definition tensor_of_list :: "real list \<Rightarrow> tensor" where
  "tensor_of_list xs =
     \<lparr>shape = [length xs], elem = (\<lambda>idx. case idx of [] \<Rightarrow> 0 | i # is \<Rightarrow> if i < length xs then xs ! i else 0)\<rparr>"

text \<open>
  The values that construction takes from outside: the pretrained VGG16 convolutions at
  the positions of \<open>vgg16(pretrained=True).features\<close>, and the random initial values of
  the three side convolutions. The shapes are the ones the constructors fix.
\<close>

record init_values =
  vgg_weight :: "nat \<Rightarrow> nat list \<Rightarrow> real"
  vgg_bias :: "nat \<Rightarrow> nat list \<Rightarrow> real"
  side_weight :: "nat \<Rightarrow> nat list \<Rightarrow> real"
  side_bias :: "nat \<Rightarrow> nat list \<Rightarrow> real"

definition vgg_conv :: "init_values \<Rightarrow> nat \<Rightarrow> nat \<Rightarrow> nat \<Rightarrow> conv2d" where
  "vgg_conv iv layer_idx cin cout =
     \<lparr>weight = \<lparr>shape = [cout, cin, 3, 3], elem = vgg_weight iv layer_idx\<rparr>,
      bias = \<lparr>shape = [cout], elem = vgg_bias iv layer_idx\<rparr>,
      padding = 1\<rparr>"

definition side_conv :: "init_values \<Rightarrow> nat \<Rightarrow> nat \<Rightarrow> conv2d" where
  "side_conv iv stage cin =
     \<lparr>weight = \<lparr>shape = [1, cin, 1, 1], elem = side_weight iv stage\<rparr>,
      bias = \<lparr>shape = [1], elem = side_bias iv stage\<rparr>,
      padding = 0\<rparr>"

definition CDWS_init :: "init_values \<Rightarrow> cdws" where
  "CDWS_init iv =
     \<lparr>conv1_1 = vgg_conv iv 0 3 64,
      conv1_2 = vgg_conv iv 2 64 64,
      pool1 = \<lparr>kernel_size = 2, stride = 2\<rparr>,
      conv2_1 = vgg_conv iv 5 64 128,
      conv2_2 = vgg_conv iv 7 128 128,
      pool2 = \<lparr>kernel_size = 2, stride = 2\<rparr>,
      conv3_1 = vgg_conv iv 10 128 256,
      conv3_2 = vgg_conv iv 12 256 256,
      conv3_3 = vgg_conv iv 14 256 256,
      pool3 = \<lparr>kernel_size = 2, stride = 2\<rparr>,
      side_conv1 = side_conv iv 1 64,
      side_conv2 = side_conv iv 2 128,
      side_conv3 = side_conv iv 3 256,
      fusion_weights = tensor_of_list [0.2, 0.35, 0.45],
      side_ac_weights = tensor_of_list [2.5, 5, 10],
      fuse_ac_weight = PyInt 10,
      side_outputs = None,
      fused_output = None\<rparr>"

subsection \<open>forward\<close>

text \<open>
  The three stages up to the third pooling: the feature map \<open>h\<close> and the three side maps.
  Nothing is assigned to the instance here.
\<close>

definition lift :: "('a \<Rightarrow> 'b) \<Rightarrow> error + 'a \<Rightarrow> error + 'b" where
  "lift f r = and_then r (\<lambda>v. Inr (f v))"

definition stages :: "cdws \<Rightarrow> tensor \<Rightarrow> error + (tensor \<times> tensor \<times> tensor \<times> tensor)" where
  "stages m x =
     and_then (lift relu (apply_conv2d (conv1_1 m) x)) (\<lambda>h.
     and_then (lift relu (apply_conv2d (conv1_2 m) h)) (\<lambda>h.
     and_then (lift sigmoid (apply_conv2d (side_conv1 m) h)) (\<lambda>side1.
     and_then (apply_maxpool2d (pool1 m) h) (\<lambda>h.
     and_then (lift relu (apply_conv2d (conv2_1 m) h)) (\<lambda>h.
     and_then (lift relu (apply_conv2d (conv2_2 m) h)) (\<lambda>h.
     and_then (lift sigmoid (apply_conv2d (side_conv2 m) h)) (\<lambda>side2.
     and_then (apply_maxpool2d (pool2 m) h) (\<lambda>h.
     and_then (lift relu (apply_conv2d (conv3_1 m) h)) (\<lambda>h.
     and_then (lift relu (apply_conv2d (conv3_2 m) h)) (\<lambda>h.
     and_then (lift relu (apply_conv2d (conv3_3 m) h)) (\<lambda>h.
     and_then (lift sigmoid (apply_conv2d (side_conv3 m) h)) (\<lambda>side3.
     and_then (apply_maxpool2d (pool3 m) h) (\<lambda>h.
     Inr (h, side1, side2, side3))))))))))))))"

text \<open>
  The fusion: the side maps are concatenated along dimension 1 and stored, the fusion
  weights are viewed as \<open>(1, 3, 1, 1)\<close> and stored, and the fused output is the sum over
  dimension 1 of the weighted side outputs, kept as a dimension of size 1.
\<close>

definition fuse :: "cdws \<Rightarrow> tensor \<Rightarrow> tensor \<Rightarrow> tensor \<Rightarrow> error + cdws" where
  "fuse m side1 side2 side3 =
     and_then (torch_cat [side1, side2, side3] 1) (\<lambda>so.
     and_then (view (fusion_weights m) [1, 3, 1, 1]) (\<lambda>fw.
     and_then (tensor_mul so fw) (\<lambda>weighted.
     and_then (sum_dim weighted 1 True) (\<lambda>fo.
     Inr (m\<lparr>side_outputs := Some so, fusion_weights := fw, fused_output := Some fo\<rparr>)))))"

text \<open>
  \<open>forward\<close> returns the feature map of the third stage. The instance is assigned only
  after the concatenation; an exception before that leaves it as it was.
\<close>

definition forward :: "cdws \<Rightarrow> tensor \<Rightarrow> (error + tensor) \<times> cdws" where
  "forward m x =
     (case and_then (stages m x) (\<lambda>(h, side1, side2, side3).
             and_then (fuse m side1 side2 side3) (\<lambda>m'. Inr (h, m'))) of
        Inl e \<Rightarrow> (Inl e, m)
      | Inr (h, m') \<Rightarrow> (Inr h, m'))"

subsection \<open>compute\_loss\<close>

text \<open>
  The two local functions of \<open>compute_loss\<close>; \<open>target_class\<close> and \<open>target_area\<close> are
  the unsqueezed targets. \<open>1 / self.gmp\<close> is Python's true division.
\<close>

definition mil_loss :: "tensor \<Rightarrow> tensor \<Rightarrow> error + tensor" where
  "mil_loss target_class output =
     and_then (mean_2_3 output) (\<lambda>pooled.
     let image_pred = tensor_map (\<lambda>v. v powr (1 / real_of_int gmp)) pooled in
     and_then (tensor_mul target_class (torch_log image_pred)) (\<lambda>pos.
     and_then (tensor_mul (tensor_map (\<lambda>v. 1 - v) target_class)
                          (torch_log (tensor_map (\<lambda>v. 1 - v) image_pred))) (\<lambda>neg.
     tensor_add pos neg)))"

definition ac_loss :: "tensor \<Rightarrow> tensor \<Rightarrow> tensor \<Rightarrow> error + tensor" where
  "ac_loss target_class target_area output =
     and_then (mean_2_3 output) (\<lambda>area_pred.
     and_then (tensor_sub area_pred target_area) (\<lambda>diff.
     tensor_mul target_class (sum_all (tensor_map (\<lambda>v. v ^ 2) diff))))"

text \<open>
  The part of \<open>compute_loss\<close> before the assignment of \<open>self.side_ac_weights\<close>, and the
  part after it; an exception in the second part leaves that assignment in place.
\<close>

definition side_losses :: "tensor \<Rightarrow> tensor \<Rightarrow> tensor \<Rightarrow> error + (tensor \<times> tensor)" where
  "side_losses target_class target_area so =
     and_then (mil_loss target_class so) (\<lambda>side_mil_loss.
     and_then (ac_loss target_class target_area so) (\<lambda>side_ac_loss.
     Inr (side_mil_loss, side_ac_loss)))"

definition total_loss ::
  "cdws \<Rightarrow> tensor \<Rightarrow> tensor \<Rightarrow> tensor \<Rightarrow> tensor \<Rightarrow> tensor \<Rightarrow> error + (tensor \<times> cdws)" where
  "total_loss m target_class target_area side_mil_loss side_ac_loss fo =
     and_then (tensor_mul (side_ac_weights m) side_ac_loss) (\<lambda>weighted.
     and_then (tensor_add side_mil_loss weighted) (\<lambda>side_loss.
     and_then (sum_dim side_loss 1 False) (\<lambda>side_loss.
     and_then (mil_loss target_class fo) (\<lambda>fuse_mil_loss.
     and_then (ac_loss target_class target_area fo) (\<lambda>fuse_ac_loss.
     and_then (py_to (fuse_ac_weight m)) (\<lambda>w.
     let m' = m\<lparr>fuse_ac_weight := PyTensor (unsqueeze_first w)\<rparr> in
     and_then (tensor_mul (unsqueeze_first w) fuse_ac_loss) (\<lambda>weighted.
     and_then (tensor_add fuse_mil_loss weighted) (\<lambda>fuse_loss.
     and_then (tensor_add side_loss (squeeze fuse_loss)) (\<lambda>loss.
     Inr (loss, m'))))))))))"

definition compute_loss :: "cdws \<Rightarrow> tensor \<Rightarrow> tensor \<Rightarrow> (error + tensor) \<times> cdws" where
  "compute_loss m target_class target_area =
     (case side_outputs m of
        None \<Rightarrow> (Inl AssertionError, m)
      | Some so \<Rightarrow>
        (case fused_output m of
           None \<Rightarrow> (Inl AssertionError, m)
         | Some fo \<Rightarrow>
           (let tc = unsqueeze_last target_class; ta = unsqueeze_last target_area in
            case side_losses tc ta so of
              Inl e \<Rightarrow> (Inl e, m)
            | Inr (side_mil_loss, side_ac_loss) \<Rightarrow>
              (let m1 = m\<lparr>side_ac_weights := unsqueeze_first (side_ac_weights m)\<rparr> in
               case total_loss m1 tc ta side_mil_loss side_ac_loss fo of
                 Inl e \<Rightarrow> (Inl e, m1)
               | Inr (loss, m2) \<Rightarrow> (Inr loss, m2)))))"

(*PROOFS*)
section \<open>Shapes through the network\<close>

lemma and_then_Inr: "and_then r f = Inr v \<longleftrightarrow> (\<exists>u. r = Inr u \<and> f u = Inr v)"
  by (cases r) (simp_all add: and_then_def)

lemma and_then_Inl: "and_then r f = Inl e \<longleftrightarrow> r = Inl e \<or> (\<exists>u. r = Inr u \<and> f u = Inl e)"
  by (cases r) (simp_all add: and_then_def)

lemma lift_Inr: "lift f r = Inr v \<longleftrightarrow> (\<exists>u. r = Inr u \<and> v = f u)"
  by (cases r) (auto simp: lift_def and_then_def)

lemma lift_Inl: "lift f r = Inl e \<longleftrightarrow> r = Inl e"
  by (cases r) (auto simp: lift_def and_then_def)

lemma shape_tensor_map [simp]: "shape (tensor_map f t) = shape t"
  by (simp add: tensor_map_def)

lemma shape_relu [simp]: "shape (relu t) = shape t"
  by (simp add: relu_def)

lemma shape_sigmoid [simp]: "shape (sigmoid t) = shape t"
  by (simp add: sigmoid_def)

lemma apply_conv2d_Inr:
  "apply_conv2d l x = Inr y \<Longrightarrow>
     conv_shape (shape x) (shape (weight l)) (shape (bias l)) (padding l) = Some (shape y)"
  by (auto simp: apply_conv2d_def split: option.splits)

lemma apply_conv2d_Inl: "apply_conv2d l x = Inl e \<Longrightarrow> e = RuntimeError"
  by (auto simp: apply_conv2d_def split: option.splits)

lemma apply_maxpool2d_Inr:
  "apply_maxpool2d l x = Inr y \<Longrightarrow> pool_shape (shape x) (kernel_size l) (stride l) = Some (shape y)"
  by (auto simp: apply_maxpool2d_def split: option.splits)

lemma apply_maxpool2d_Inl: "apply_maxpool2d l x = Inl e \<Longrightarrow> e = RuntimeError"
  by (auto simp: apply_maxpool2d_def split: option.splits)

lemma conv_shape_Some:
  "conv_shape xs ws bs p = Some s \<Longrightarrow>
     \<exists>b c h w co kh kw. xs = [b, c, h, w] \<and> ws = [co, c, kh, kw] \<and> bs = [co] \<and>
        0 < kh \<and> 0 < kw \<and> kh \<le> h + 2 * p \<and> kw \<le> w + 2 * p \<and>
        s = [b, co, h + 2 * p - kh + 1, w + 2 * p - kw + 1]"
  by (erule conv_shape.elims) (auto split: if_splits)

lemma pool_shape_Some:
  "pool_shape xs k s = Some r \<Longrightarrow>
     \<exists>b c h w. xs = [b, c, h, w] \<and> 0 < k \<and> 0 < s \<and> k \<le> h \<and> k \<le> w \<and>
        r = [b, c, (h - k) div s + 1, (w - k) div s + 1]"
  by (erule pool_shape.elims) (auto split: if_splits)

lemma vgg_step:
  assumes "lift relu (apply_conv2d (vgg_conv iv i cin cout) x) = Inr y" and "shape x = [b, c, h, w]"
  shows "c = cin \<and> 0 < h \<and> 0 < w \<and> shape y = [b, cout, h, w]"
proof -
  from assms(1) obtain u where u: "apply_conv2d (vgg_conv iv i cin cout) x = Inr u" and y: "y = relu u"
    by (auto simp: lift_Inr)
  from apply_conv2d_Inr [OF u] assms(2) show ?thesis
    by (auto simp: vgg_conv_def y split: if_splits)
qed

lemma side_step:
  assumes "lift sigmoid (apply_conv2d (side_conv iv i cin) x) = Inr y" and "shape x = [b, c, h, w]"
  shows "c = cin \<and> 0 < h \<and> 0 < w \<and> shape y = [b, 1, h, w]"
proof -
  from assms(1) obtain u where u: "apply_conv2d (side_conv iv i cin) x = Inr u" and y: "y = sigmoid u"
    by (auto simp: lift_Inr)
  from apply_conv2d_Inr [OF u] assms(2) show ?thesis
    by (auto simp: side_conv_def y split: if_splits)
qed

lemma pool_step:
  assumes "apply_maxpool2d \<lparr>kernel_size = 2, stride = 2\<rparr> x = Inr y" and "shape x = [b, c, h, w]"
  shows "2 \<le> h \<and> 2 \<le> w \<and> shape y = [b, c, h div 2, w div 2]"
proof -
  from apply_maxpool2d_Inr [OF assms(1)] assms(2) have "2 \<le> h \<and> 2 \<le> w \<and> shape y = [b, c, (h - 2) div 2 + 1, (w - 2) div 2 + 1]"
    by (auto split: if_splits)
  then show ?thesis by (auto simp: le_div_geq)
qed


lemma stages_shapes:
  assumes "stages (CDWS_init iv) x = Inr (h, side1, side2, side3)"
  shows "\<exists>b hh ww. shape x = [b, 3, hh, ww] \<and> 8 \<le> hh \<and> 8 \<le> ww \<and>
           shape side1 = [b, 1, hh, ww] \<and> shape side2 = [b, 1, hh div 2, ww div 2] \<and>
           shape side3 = [b, 1, hh div 4, ww div 4] \<and> shape h = [b, 256, hh div 8, ww div 8]"
proof -
  from assms obtain h1 h2 h3 h4 h5 h6 h7 h8 h9 where
    a1: "lift relu (apply_conv2d (vgg_conv iv 0 3 64) x) = Inr h1" and
    a2: "lift relu (apply_conv2d (vgg_conv iv 2 64 64) h1) = Inr h2" and
    a3: "lift sigmoid (apply_conv2d (side_conv iv 1 64) h2) = Inr side1" and
    a4: "apply_maxpool2d \<lparr>kernel_size = 2, stride = 2\<rparr> h2 = Inr h3" and
    a5: "lift relu (apply_conv2d (vgg_conv iv 5 64 128) h3) = Inr h4" and
    a6: "lift relu (apply_conv2d (vgg_conv iv 7 128 128) h4) = Inr h5" and
    a7: "lift sigmoid (apply_conv2d (side_conv iv 2 128) h5) = Inr side2" and
    a8: "apply_maxpool2d \<lparr>kernel_size = 2, stride = 2\<rparr> h5 = Inr h6" and
    a9: "lift relu (apply_conv2d (vgg_conv iv 10 128 256) h6) = Inr h7" and
    a10: "lift relu (apply_conv2d (vgg_conv iv 12 256 256) h7) = Inr h8" and
    a11: "lift relu (apply_conv2d (vgg_conv iv 14 256 256) h8) = Inr h9" and
    a12: "lift sigmoid (apply_conv2d (side_conv iv 3 256) h9) = Inr side3" and
    a13: "apply_maxpool2d \<lparr>kernel_size = 2, stride = 2\<rparr> h9 = Inr h"
    unfolding stages_def CDWS_init_def by (auto simp: and_then_Inr)
  from a1 obtain u where "apply_conv2d (vgg_conv iv 0 3 64) x = Inr u" by (auto simp: lift_Inr)
  from apply_conv2d_Inr [OF this] obtain b c hh ww where x: "shape x = [b, c, hh, ww]"
    by (auto dest!: conv_shape_Some)
  from vgg_step [OF a1 x] have c: "c = 3" and s1: "shape h1 = [b, 64, hh, ww]" by auto
  from vgg_step [OF a2 s1] have s2: "shape h2 = [b, 64, hh, ww]" by auto
  from side_step [OF a3 s2] have t1: "shape side1 = [b, 1, hh, ww]" by auto
  from pool_step [OF a4 s2] have s3: "shape h3 = [b, 64, hh div 2, ww div 2]" by auto
  from vgg_step [OF a5 s3] have s4: "shape h4 = [b, 128, hh div 2, ww div 2]" by auto
  from vgg_step [OF a6 s4] have s5: "shape h5 = [b, 128, hh div 2, ww div 2]" by auto
  from side_step [OF a7 s5] have t2: "shape side2 = [b, 1, hh div 2, ww div 2]" by auto
  from pool_step [OF a8 s5] have s6: "shape h6 = [b, 128, hh div 2 div 2, ww div 2 div 2]" by auto
  from vgg_step [OF a9 s6] have s7: "shape h7 = [b, 256, hh div 2 div 2, ww div 2 div 2]" by auto
  from vgg_step [OF a10 s7] have s8: "shape h8 = [b, 256, hh div 2 div 2, ww div 2 div 2]" by auto
  from vgg_step [OF a11 s8] have s9: "shape h9 = [b, 256, hh div 2 div 2, ww div 2 div 2]" by auto
  from side_step [OF a12 s9] have t3: "shape side3 = [b, 1, hh div 2 div 2, ww div 2 div 2]" by auto
  from pool_step [OF a13 s9] have
    s10: "shape h = [b, 256, hh div 2 div 2 div 2, ww div 2 div 2 div 2]" and
    g: "2 \<le> hh div 2 div 2" "2 \<le> ww div 2 div 2" by auto
  have d4: "hh div 2 div 2 = hh div 4" "ww div 2 div 2 = ww div 4" by (simp_all add: div_mult2_eq [symmetric])
  have d8: "hh div 2 div 2 div 2 = hh div 8" "ww div 2 div 2 div 2 = ww div 8" by (simp_all add: div_mult2_eq [symmetric])
  from g have "8 \<le> hh" "8 \<le> ww" by (simp_all add: d4)
  with x c t1 t2 t3 s10 d4 d8 show ?thesis by simp
qed

lemma stages_Inl: "stages m x = Inl e \<Longrightarrow> e = RuntimeError"
  unfolding stages_def
  by (auto simp: and_then_Inl lift_Inl dest: apply_conv2d_Inl apply_maxpool2d_Inl)

lemma torch_cat_mismatch:
  assumes "shape s1 = [b, 1, hh, ww]" "shape s2 = [b, 1, hh div 2, ww div 2]"
    "shape s3 = [b, 1, hh div 4, ww div 4]" "8 \<le> hh"
  shows "torch_cat [s1, s2, s3] 1 = Inl RuntimeError"
proof -
  have ne: "hh \<noteq> hh div 2" using assms(4) by arith
  have "\<not> same_except 1 (shape s1) (shape s2)"
    using ne by (simp add: same_except_def assms)
  then show ?thesis
    using assms(1,2,3) by (simp add: torch_cat_def)
qed

lemma forward_fresh_raises: "forward (CDWS_init iv) x = (Inl RuntimeError, CDWS_init iv)"
proof (cases "stages (CDWS_init iv) x")
  case (Inl e)
  then have "e = RuntimeError" by (rule stages_Inl)
  with Inl show ?thesis by (simp add: forward_def and_then_def)
next
  case (Inr r)
  obtain h side1 side2 side3 where r: "r = (h, side1, side2, side3)" by (cases r) auto
  from stages_shapes [OF Inr [unfolded r]] obtain b hh ww where
    "shape side1 = [b, 1, hh, ww]" "shape side2 = [b, 1, hh div 2, ww div 2]"
    "shape side3 = [b, 1, hh div 4, ww div 4]" "8 \<le> hh" by auto
  then have "torch_cat [side1, side2, side3] 1 = Inl RuntimeError" by (rule torch_cat_mismatch)
  then have "fuse (CDWS_init iv) side1 side2 side3 = Inl RuntimeError"
    by (simp add: fuse_def and_then_def)
  with Inr r show ?thesis by (simp add: forward_def and_then_def)
qed


section \<open>Shapes through the loss\<close>

lemma tensor_binop_Inl: "tensor_binop f a b = Inl e \<Longrightarrow> e = RuntimeError"
  by (auto simp: tensor_binop_def split: option.splits)

lemma tensor_binop_ok:
  "broadcast_shapes (shape a) (shape b) = Some s \<Longrightarrow> \<exists>y. tensor_binop f a b = Inr y \<and> shape y = s"
  by (simp add: tensor_binop_def)

lemma mean_2_3_ok:
  "shape t = [b, c, h, w] \<Longrightarrow> \<exists>y. mean_2_3 t = Inr y \<and> shape y = [b, c]"
  by (simp add: mean_2_3_def)

lemma mean_2_3_Inl: "mean_2_3 t = Inl e \<Longrightarrow> e = IndexError"
  by (auto simp: mean_2_3_def split: if_splits)

lemma sum_dim_Inl: "sum_dim t d k = Inl e \<Longrightarrow> e = IndexError"
  by (auto simp: sum_dim_def split: if_splits)

lemma view_Inl: "view t s = Inl e \<Longrightarrow> e = RuntimeError"
  by (auto simp: view_def split: if_splits)

lemma py_to_Inl: "py_to v = Inl e \<Longrightarrow> e = AttributeError"
  by (auto simp: py_to_def split: pyval.splits)

lemma broadcast_col: "broadcast_shapes [b, Suc 0] [b, c] = Some [b, c]"
  by (simp add: broadcast_shapes_def)

lemma broadcast_col': "broadcast_shapes [b, c] [b, Suc 0] = Some [b, c]"
  by (simp add: broadcast_shapes_def)

lemma broadcast_same: "broadcast_shapes [b, c] [b, c] = Some [b, c]"
  by (simp add: broadcast_shapes_def)

lemma broadcast_scalar: "broadcast_shapes s [] = Some s"
  by (cases "rev s") (simp_all add: broadcast_shapes_def)

lemma mil_loss_ok:
  assumes "shape out = [b, c, h, w]" "shape tc = [b, 1]"
  shows "\<exists>y. mil_loss tc out = Inr y \<and> shape y = [b, c]"
proof -
  from mean_2_3_ok [OF assms(1)] obtain p where p: "mean_2_3 out = Inr p" "shape p = [b, c]" by auto
  let ?ip = "tensor_map (\<lambda>v. v powr (1 / real_of_int gmp)) p"
  have "broadcast_shapes (shape tc) (shape (torch_log ?ip)) = Some [b, c]"
    by (simp add: torch_log_def assms p broadcast_col)
  from tensor_binop_ok [OF this] obtain pos where
    pos: "tensor_mul tc (torch_log ?ip) = Inr pos" "shape pos = [b, c]"
    unfolding tensor_mul_def by blast
  have "broadcast_shapes (shape (tensor_map (\<lambda>v. 1 - v) tc))
          (shape (torch_log (tensor_map (\<lambda>v. 1 - v) ?ip))) = Some [b, c]"
    by (simp add: torch_log_def assms p broadcast_col)
  from tensor_binop_ok [OF this] obtain neg where
    neg: "tensor_mul (tensor_map (\<lambda>v. 1 - v) tc) (torch_log (tensor_map (\<lambda>v. 1 - v) ?ip)) = Inr neg"
      "shape neg = [b, c]"
    unfolding tensor_mul_def by blast
  have "broadcast_shapes (shape pos) (shape neg) = Some [b, c]"
    by (simp add: pos neg broadcast_same)
  from tensor_binop_ok [OF this] obtain y where y: "tensor_add pos neg = Inr y" "shape y = [b, c]"
    unfolding tensor_add_def by blast
  show ?thesis
    by (simp add: mil_loss_def and_then_def p Let_def pos neg y)
qed

lemma ac_loss_ok:
  assumes "shape out = [b, c, h, w]" "shape tc = [b, 1]" "shape ta = [b, 1]"
  shows "\<exists>y. ac_loss tc ta out = Inr y \<and> shape y = [b, 1]"
proof -
  from mean_2_3_ok [OF assms(1)] obtain p where p: "mean_2_3 out = Inr p" "shape p = [b, c]" by auto
  have "broadcast_shapes (shape p) (shape ta) = Some [b, c]"
    by (simp add: assms p broadcast_col')
  from tensor_binop_ok [OF this] obtain diff where
    d: "tensor_sub p ta = Inr diff" "shape diff = [b, c]"
    unfolding tensor_sub_def by blast
  have "broadcast_shapes (shape tc) (shape (sum_all (tensor_map (\<lambda>v. v ^ 2) diff))) = Some [b, 1]"
    by (simp add: sum_all_def assms broadcast_scalar)
  from tensor_binop_ok [OF this] obtain y where
    y: "tensor_mul tc (sum_all (tensor_map (\<lambda>v. v ^ 2) diff)) = Inr y" "shape y = [b, 1]"
    unfolding tensor_mul_def by blast
  show ?thesis
    by (simp add: ac_loss_def and_then_def p d y)
qed

lemma mil_loss_Inl: "mil_loss tc out = Inl e \<Longrightarrow> e = RuntimeError \<or> e = IndexError"
  unfolding mil_loss_def Let_def tensor_mul_def tensor_add_def
  by (auto simp: and_then_Inl dest: mean_2_3_Inl tensor_binop_Inl)

lemma ac_loss_Inl: "ac_loss tc ta out = Inl e \<Longrightarrow> e = RuntimeError \<or> e = IndexError"
  unfolding ac_loss_def tensor_mul_def tensor_sub_def
  by (auto simp: and_then_Inl dest: mean_2_3_Inl tensor_binop_Inl)

lemma side_losses_Inl: "side_losses tc ta so = Inl e \<Longrightarrow> e = RuntimeError \<or> e = IndexError"
  unfolding side_losses_def
  by (auto simp: and_then_Inl dest: mil_loss_Inl ac_loss_Inl)

lemma total_loss_Inl:
  "total_loss m tc ta sm sa fo = Inl e \<Longrightarrow> e = RuntimeError \<or> e = IndexError \<or> e = AttributeError"
  unfolding total_loss_def Let_def tensor_mul_def tensor_add_def
  by (auto simp: and_then_Inl dest: mil_loss_Inl ac_loss_Inl tensor_binop_Inl sum_dim_Inl py_to_Inl)

lemma total_loss_PyInt:
  "fuse_ac_weight m = PyInt n \<Longrightarrow> total_loss m tc ta sm sa fo \<noteq> Inr r"
  unfolding total_loss_def
  by (auto simp: and_then_Inr py_to_def)

lemma compute_loss_outputs_kept:
  "side_outputs (snd (compute_loss m tc ta)) = side_outputs m \<and>
   fused_output (snd (compute_loss m tc ta)) = fused_output m"
  unfolding compute_loss_def total_loss_def Let_def
  by (auto simp: and_then_Inr split: option.splits sum.splits prod.splits)

section \<open>Claims about the network\<close>

text \<open>
  C4. On a freshly constructed instance, on which \<open>forward\<close> has never been invoked,
  every call of \<open>compute_loss\<close> fails with an assertion error, whatever the targets are:
  the result is the exception, never a value, and the instance is left as it was.
\<close>

theorem compute_loss_before_forward:
  "compute_loss (CDWS_init iv) target_class target_area = (Inl AssertionError, CDWS_init iv)"
  by (simp add: compute_loss_def CDWS_init_def)

end
